theory Spec2Isabelle
  imports Complex_Main
begin

section \<open>Numbers, vectors and matrices\<close>

text \<open>
  The arrays of \<^verbatim>\<open>jax_fem.py\<close> hold 64-bit floats. They are modelled by
  exact reals: rounding, overflow and the non-finite values (inf, NaN) of the floating
  point format are outside this development. A point of the mesh, a reference
  coordinate and a gradient are rows of length \<open>dim = 3\<close>; a \<open>3 \<times> 3\<close> array is a
  triple of rows.
\<close>

type_synonym vec3 = "real \<times> real \<times> real"
type_synonym mat3 = "vec3 \<times> vec3 \<times> vec3"

definition vzero :: vec3 where
  "vzero = (0, 0, 0)"

fun vadd :: "vec3 \<Rightarrow> vec3 \<Rightarrow> vec3" where
  "vadd (a0, a1, a2) (b0, b1, b2) = (a0 + b0, a1 + b1, a2 + b2)"

fun vscale :: "real \<Rightarrow> vec3 \<Rightarrow> vec3" where
  "vscale k (a0, a1, a2) = (k * a0, k * a1, k * a2)"

definition vsum :: "vec3 list \<Rightarrow> vec3" where
  "vsum vs = foldr vadd vs vzero"



fun vdivs :: "vec3 \<Rightarrow> real \<Rightarrow> vec3" where
  "vdivs (a0, a1, a2) k = (a0 / k, a1 / k, a2 / k)"


fun madd :: "mat3 \<Rightarrow> mat3 \<Rightarrow> mat3" where
  "madd (r0, r1, r2) (s0, s1, s2) = (vadd r0 s0, vadd r1 s1, vadd r2 s2)"




fun mdivs :: "mat3 \<Rightarrow> real \<Rightarrow> mat3" where
  "mdivs (r0, r1, r2) k = (vdivs r0 k, vdivs r1 k, vdivs r2 k)"





definition mzero :: mat3 where
  "mzero = (vzero, vzero, vzero)"

section \<open>Reference element\<close>

subsection \<open>\<^verbatim>\<open>FEM.get_shape_val_functions\<close>\<close>

fun f1 :: "vec3 \<Rightarrow> real" where
  "f1 (x0, x1, x2) = - 1 / 8 * (x0 - 1) * (x1 - 1) * (x2 - 1)"

fun f2 :: "vec3 \<Rightarrow> real" where
  "f2 (x0, x1, x2) = 1 / 8 * (x0 + 1) * (x1 - 1) * (x2 - 1)"

fun f3 :: "vec3 \<Rightarrow> real" where
  "f3 (x0, x1, x2) = - 1 / 8 * (x0 + 1) * (x1 + 1) * (x2 - 1)"

fun f4 :: "vec3 \<Rightarrow> real" where
  "f4 (x0, x1, x2) = 1 / 8 * (x0 - 1) * (x1 + 1) * (x2 - 1)"

fun f5 :: "vec3 \<Rightarrow> real" where
  "f5 (x0, x1, x2) = 1 / 8 * (x0 - 1) * (x1 - 1) * (x2 + 1)"

fun f6 :: "vec3 \<Rightarrow> real" where
  "f6 (x0, x1, x2) = - 1 / 8 * (x0 + 1) * (x1 - 1) * (x2 + 1)"

fun f7 :: "vec3 \<Rightarrow> real" where
  "f7 (x0, x1, x2) = 1 / 8 * (x0 + 1) * (x1 + 1) * (x2 + 1)"

fun f8 :: "vec3 \<Rightarrow> real" where
  "f8 (x0, x1, x2) = - 1 / 8 * (x0 - 1) * (x1 + 1) * (x2 + 1)"

definition get_shape_val_functions :: "(vec3 \<Rightarrow> real) list" where
  "get_shape_val_functions = [f1, f2, f3, f4, f5, f6, f7, f8]"

subsection \<open>\<^verbatim>\<open>FEM.get_shape_grad_functions\<close>\<close>

text \<open>
  The source takes \<^verbatim>\<open>jax.grad(f)\<close> of each shape function: the analytic
  gradient, here written out. The lemmas \<open>g1_is_grad\<close> to \<open>g8_is_grad\<close> below show
  that each component is the partial derivative of the shape function.
\<close>

fun g1 :: "vec3 \<Rightarrow> vec3" where
  "g1 (x0, x1, x2) =
     (- 1 / 8 * (x1 - 1) * (x2 - 1), - 1 / 8 * (x0 - 1) * (x2 - 1), - 1 / 8 * (x0 - 1) * (x1 - 1))"

fun g2 :: "vec3 \<Rightarrow> vec3" where
  "g2 (x0, x1, x2) =
     (1 / 8 * (x1 - 1) * (x2 - 1), 1 / 8 * (x0 + 1) * (x2 - 1), 1 / 8 * (x0 + 1) * (x1 - 1))"

fun g3 :: "vec3 \<Rightarrow> vec3" where
  "g3 (x0, x1, x2) =
     (- 1 / 8 * (x1 + 1) * (x2 - 1), - 1 / 8 * (x0 + 1) * (x2 - 1), - 1 / 8 * (x0 + 1) * (x1 + 1))"

fun g4 :: "vec3 \<Rightarrow> vec3" where
  "g4 (x0, x1, x2) =
     (1 / 8 * (x1 + 1) * (x2 - 1), 1 / 8 * (x0 - 1) * (x2 - 1), 1 / 8 * (x0 - 1) * (x1 + 1))"

fun g5 :: "vec3 \<Rightarrow> vec3" where
  "g5 (x0, x1, x2) =
     (1 / 8 * (x1 - 1) * (x2 + 1), 1 / 8 * (x0 - 1) * (x2 + 1), 1 / 8 * (x0 - 1) * (x1 - 1))"

fun g6 :: "vec3 \<Rightarrow> vec3" where
  "g6 (x0, x1, x2) =
     (- 1 / 8 * (x1 - 1) * (x2 + 1), - 1 / 8 * (x0 + 1) * (x2 + 1), - 1 / 8 * (x0 + 1) * (x1 - 1))"

fun g7 :: "vec3 \<Rightarrow> vec3" where
  "g7 (x0, x1, x2) =
     (1 / 8 * (x1 + 1) * (x2 + 1), 1 / 8 * (x0 + 1) * (x2 + 1), 1 / 8 * (x0 + 1) * (x1 + 1))"

fun g8 :: "vec3 \<Rightarrow> vec3" where
  "g8 (x0, x1, x2) =
     (- 1 / 8 * (x1 + 1) * (x2 + 1), - 1 / 8 * (x0 - 1) * (x2 + 1), - 1 / 8 * (x0 - 1) * (x1 + 1))"

definition get_shape_grad_functions :: "(vec3 \<Rightarrow> vec3) list" where
  "get_shape_grad_functions = [g1, g2, g3, g4, g5, g6, g7, g8]"

subsection \<open>\<^verbatim>\<open>FEM.get_quad_points\<close> and \<^verbatim>\<open>FEM.get_face_quad_points\<close>\<close>

text \<open>The coordinate \<^verbatim>\<open>(2*(k % 2) - 1) * np.sqrt(1./3.)\<close> of a Gauss point.\<close>

definition gauss_coord :: "nat \<Rightarrow> real" where
  "gauss_coord k = real_of_int (2 * (int k mod 2) - 1) * sqrt (1 / 3)"

definition get_quad_points :: "vec3 list" where
  "get_quad_points =
     concat (map (\<lambda>i. concat (map (\<lambda>j. map (\<lambda>k.
       (gauss_coord k, gauss_coord j, gauss_coord i)) [0..<2]) [0..<2])) [0..<2])"

text \<open>\<^verbatim>\<open>np.roll(items, d)\<close> on an array of length 3: a cyclic shift to the right.\<close>

fun roll :: "vec3 \<Rightarrow> nat \<Rightarrow> vec3" where
  "roll (a, b, c) d =
     (if d mod 3 = 0 then (a, b, c) else if d mod 3 = 1 then (c, a, b) else (b, c, a))"

definition face_extremes :: "real list" where
  "face_extremes = [- 1, 1]"

definition get_face_quad_points :: "vec3 list list \<times> vec3 list" where
  "get_face_quad_points =
     (concat (map (\<lambda>d. map (\<lambda>s.
         concat (map (\<lambda>i. map (\<lambda>j. roll (s, gauss_coord j, gauss_coord i) d) [0..<2]) [0..<2]))
         face_extremes) [0..<3]),
      concat (map (\<lambda>d. map (\<lambda>s. roll (s, 0, 0) d) face_extremes) [0..<3]))"

subsection \<open>Tables of shape values and reference gradients\<close>

datatype error = AssertionError | ShapeError | IndexError

text \<open>
  \<^verbatim>\<open>FEM.get_shape_vals\<close>, with its assertion on the shape
  \<open>(num_quads, num_nodes) = (8, 8)\<close> of the table.
\<close>

definition shape_vals_table :: "real list list" where
  "shape_vals_table = map (\<lambda>quad_point. map (\<lambda>shape_val_fn. shape_val_fn quad_point)
     get_shape_val_functions) get_quad_points"

definition has_shape2 :: "'a list list \<Rightarrow> nat \<Rightarrow> nat \<Rightarrow> bool" where
  "has_shape2 xss n m = (length xss = n \<and> list_all (\<lambda>xs. length xs = m) xss)"

definition get_shape_vals :: "error + real list list" where
  "get_shape_vals =
     (if has_shape2 shape_vals_table 8 8 then Inr shape_vals_table else Inl AssertionError)"

text \<open>\<^verbatim>\<open>FEM.get_face_shape_vals\<close>: indexed \<open>[face, face_quad, node]\<close>.\<close>

definition get_face_shape_vals :: "real list list list" where
  "get_face_shape_vals = map (\<lambda>f_quad_points. map (\<lambda>quad_point.
     map (\<lambda>shape_val_fn. shape_val_fn quad_point) get_shape_val_functions) f_quad_points)
     (fst get_face_quad_points)"

text \<open>
  The table \<^verbatim>\<open>shape_grads_reference\<close> built at the start of
  \<^verbatim>\<open>FEM.get_shape_grads\<close>, indexed \<open>[quad, node]\<close>, and the table
  \<^verbatim>\<open>face_shape_grads_reference\<close> of \<^verbatim>\<open>FEM.get_face_shape_grads\<close>, indexed
  \<open>[face, face_quad, node]\<close>.
\<close>

definition shape_grads_reference :: "vec3 list list" where
  "shape_grads_reference = map (\<lambda>quad_point. map (\<lambda>shape_grad_fn. shape_grad_fn quad_point)
     get_shape_grad_functions) get_quad_points"

definition face_shape_grads_reference :: "vec3 list list list" where
  "face_shape_grads_reference = map (\<lambda>f_quad_points. map (\<lambda>f_quad_point.
     map (\<lambda>shape_grad_fn. shape_grad_fn f_quad_point) get_shape_grad_functions) f_quad_points)
     (fst get_face_quad_points)"

section \<open>Plasticity: the return mapping\<close>






section \<open>Mesh and boundary conditions\<close>

text \<open>
  \<^verbatim>\<open>Mesh\<close>: the nodal coordinates \<^verbatim>\<open>points\<close>, of shape \<open>(num_total_nodes, 3)\<close>,
  and the connectivity \<^verbatim>\<open>cells\<close>, of shape \<open>(num_cells, 8)\<close>.
\<close>

record mesh =
  points :: "vec3 list"
  cells :: "nat list list"

text \<open>
  The invariant of a mesh: every cell has 8 node indices, each the index of a point.
\<close>

definition mesh_ok :: "mesh \<Rightarrow> bool" where
  "mesh_ok m = list_all (\<lambda>cell. length cell = 8 \<and> list_all (\<lambda>i. i < length (points m)) cell)
     (cells m)"

text \<open>
  \<^verbatim>\<open>np.take(xs, i, axis=0)\<close> and \<^verbatim>\<open>xs[i]\<close> for a non-negative index, as a read that
  is clamped to the last element. This is the value of the source for an index in range.
  For an index out of range \<^verbatim>\<open>xs[i]\<close> clamps as well, while \<^verbatim>\<open>jax.numpy.take\<close> returns
  NaN, which the reals do not hold, and raises \<^verbatim>\<open>IndexError\<close> when \<open>xs\<close> is empty and
  there are indices to read. The theorems below read in range, on well-formed meshes, or
  observe only whether an error is raised; \<open>compute_residual\<close> raises the error of the
  empty axis itself.
\<close>

definition np_take :: "'a list \<Rightarrow> nat \<Rightarrow> 'a" where
  "np_take xs i = xs ! min i (length xs - 1)"

text \<open>
  \<^verbatim>\<open>np.argwhere(flags).reshape(-1)\<close> on a vector of booleans, and
  \<^verbatim>\<open>np.argwhere(flags)\<close> on a matrix of booleans: the indices of the true entries in
  row-major order.
\<close>

definition argwhere :: "bool list \<Rightarrow> nat list" where
  "argwhere flags = filter (\<lambda>j. flags ! j) [0..<length flags]"


text \<open>
  \<^verbatim>\<open>FEM.Dirichlet_boundary_conditions\<close>. The argument is the triple
  \<^verbatim>\<open>[location_fns, vecs, value_fns]\<close>; the components \<^verbatim>\<open>vecs\<close> are documented to
  lie between 0 and \<open>vec - 1\<close>. The assertion on the three lengths comes first; the
  loop over the entries appends to the three result lists.
\<close>

type_synonym dirichlet_bc_info = "(vec3 \<Rightarrow> bool) list \<times> nat list \<times> (vec3 \<Rightarrow> real) list"

definition Dirichlet_boundary_conditions ::
  "mesh \<Rightarrow> dirichlet_bc_info \<Rightarrow> error + (nat list list \<times> nat list list \<times> real list list)" where
  "Dirichlet_boundary_conditions m dirichlet_bc_info =
     (case dirichlet_bc_info of (location_fns, vecs, value_fns) \<Rightarrow>
        if \<not> (length location_fns = length value_fns \<and> length value_fns = length vecs)
        then Inl AssertionError
        else
          let entries = map (\<lambda>i.
                let node_inds = argwhere (map (location_fns ! i) (points m));
                    vec_inds = map (\<lambda>_. 1 * (vecs ! i)) node_inds;
                    values = map (value_fns ! i) (map (np_take (points m)) node_inds)
                in (node_inds, vec_inds, values)) [0..<length location_fns]
          in Inr (map fst entries, map (fst \<circ> snd) entries, map (snd \<circ> snd) entries))"


fun vnth :: "vec3 \<Rightarrow> nat \<Rightarrow> real" where
  "vnth (a0, a1, a2) d = (if d = 0 then a0 else if d = 1 then a1 else a2)"




text \<open>A mesh of one hexahedron, the unit cube, with the node order of the reference element.\<close>

definition unit_cube_mesh :: mesh where
  "unit_cube_mesh = \<lparr>points = [(0, 0, 0), (1, 0, 0), (1, 1, 0), (0, 1, 0),
                                (0, 0, 1), (1, 0, 1), (1, 1, 1), (0, 1, 1)],
                     cells = [[0, 1, 2, 3, 4, 5, 6, 7]]\<rparr>"

section \<open>Geometric mapping\<close>

text \<open>
  The inner product of two rows, the outer product of a point and a gradient, the sum of a
  list of \<open>3 \<times> 3\<close> arrays (\<^verbatim>\<open>np.sum\<close> along the node axis) and the product of a row
  with a \<open>3 \<times> 3\<close> array (\<^verbatim>\<open>@\<close>).
\<close>

fun vdot :: "vec3 \<Rightarrow> vec3 \<Rightarrow> real" where
  "vdot (a0, a1, a2) (b0, b1, b2) = a0 * b0 + a1 * b1 + a2 * b2"

fun outer :: "vec3 \<Rightarrow> vec3 \<Rightarrow> mat3" where
  "outer (a0, a1, a2) g = (vscale a0 g, vscale a1 g, vscale a2 g)"

definition mat_sum :: "mat3 list \<Rightarrow> mat3" where
  "mat_sum ms = foldr madd ms mzero"

fun vec_mat :: "vec3 \<Rightarrow> mat3 \<Rightarrow> vec3" where
  "vec_mat (v0, v1, v2) (r0, r1, r2) = vadd (vscale v0 r0) (vadd (vscale v1 r1) (vscale v2 r2))"

text \<open>
  \<^verbatim>\<open>np.linalg.det\<close> and \<^verbatim>\<open>np.linalg.inv\<close> on a \<open>3 \<times> 3\<close> array, in exact
  arithmetic: the cofactor expansion, and the adjugate divided by the determinant. For a
  singular array the source returns non-finite entries, which the reals do not hold (a
  division by zero is \<open>0\<close> here): every statement below on \<open>inv3\<close> assumes a non-zero
  determinant.
\<close>

fun det3 :: "mat3 \<Rightarrow> real" where
  "det3 ((a, b, c), (d, e, f), (g, h, i)) =
     a * (e * i - f * h) - b * (d * i - f * g) + c * (d * h - e * g)"

fun adjugate3 :: "mat3 \<Rightarrow> mat3" where
  "adjugate3 ((a, b, c), (d, e, f), (g, h, i)) =
     ((e * i - f * h, c * h - b * i, b * f - c * e),
      (f * g - d * i, a * i - c * g, c * d - a * f),
      (d * h - e * g, b * g - a * h, a * e - b * d))"

definition inv3 :: "mat3 \<Rightarrow> mat3" where
  "inv3 m = mdivs (adjugate3 m) (det3 m)"

text \<open>
  \<^verbatim>\<open>FEM.get_shape_grads\<close>. The array \<^verbatim>\<open>jacobian_dx_deta\<close>, indexed
  \<open>[cell, quad]\<close>, is the sum over the 8 nodes of the outer products of the node
  coordinates with the reference gradients. The function asserts the shape of the table of
  reference gradients and then computes determinants, inverses, physical gradients and
  \<^verbatim>\<open>JxW\<close>; it has no other assertion and no check of the determinant.
\<close>

definition jacobian_dx_deta :: "mesh \<Rightarrow> mat3 list list" where
  "jacobian_dx_deta m =
     (let physical_coos = map (map (np_take (points m))) (cells m)
      in map (\<lambda>coos. map (\<lambda>grads_ref.
           mat_sum (map2 outer coos grads_ref)) shape_grads_reference) physical_coos)"

definition get_shape_grads :: "mesh \<Rightarrow> error + (vec3 list list list \<times> real list list)" where
  "get_shape_grads m =
     (if \<not> has_shape2 shape_grads_reference 8 8 then Inl AssertionError
      else
        let jacobian_det = map (map det3) (jacobian_dx_deta m);
            jacobian_deta_dx = map (map inv3) (jacobian_dx_deta m);
            shape_grads_physical = map (\<lambda>inv_c. map2 (\<lambda>grads_ref inv_q.
              map (\<lambda>g. vec_mat g inv_q) grads_ref) shape_grads_reference inv_c) jacobian_deta_dx;
            quad_weights = 1;
            JxW = map (map (\<lambda>d. d * quad_weights)) jacobian_det
        in Inr (shape_grads_physical, JxW))"

text \<open>
  The unit cube mirrored in the plane \<open>x = 0\<close>, with the node order kept: an inverted
  element.
\<close>

definition mirrored_cube_mesh :: mesh where
  "mirrored_cube_mesh = \<lparr>points = [(0, 0, 0), (- 1, 0, 0), (- 1, 1, 0), (0, 1, 0),
                                    (0, 0, 1), (- 1, 0, 1), (- 1, 1, 1), (0, 1, 1)],
                         cells = [[0, 1, 2, 3, 4, 5, 6, 7]]\<rparr>"

section \<open>Residual assembly\<close>

text \<open>
  A two-dimensional array: the solution field \<^verbatim>\<open>sol\<close>, the residual, \<^verbatim>\<open>body_force\<close> and
  \<^verbatim>\<open>neumann\<close>. The number of columns is kept apart from the rows, so that an array with no
  row still has a shape.
\<close>

record arr2 =
  ncols :: nat
  rows :: "real list list"

definition nrows :: "arr2 \<Rightarrow> nat" where
  "nrows a = length (rows a)"

text \<open>\<^verbatim>\<open>np.zeros((n, k))\<close> and \<^verbatim>\<open>np.zeros_like(a)\<close>.\<close>

definition zeros :: "nat \<Rightarrow> nat \<Rightarrow> arr2" where
  "zeros n k = \<lparr>ncols = k, rows = replicate n (replicate k 0)\<rparr>"

definition zeros_like :: "arr2 \<Rightarrow> arr2" where
  "zeros_like a = zeros (nrows a) (ncols a)"

text \<open>
  \<^verbatim>\<open>a.reshape(-1, k)\<close> on the flattened entries of \<open>a\<close> in row-major order: an error
  when the number of entries is not a multiple of \<open>k\<close>.
\<close>

definition reshape2 :: "real list \<Rightarrow> nat \<Rightarrow> error + arr2" where
  "reshape2 flat k =
     (if k = 0 \<or> length flat mod k \<noteq> 0 then Inl ShapeError
      else Inr \<lparr>ncols = k,
                rows = map (\<lambda>i. take k (drop (i * k) flat)) [0..<length flat div k]\<rparr>)"

text \<open>
  \<^verbatim>\<open>np.broadcast_to(a, (n, k))\<close>, which \<^verbatim>\<open>x.at[inds].add(a)\<close> applies to its updates: an
  axis of \<open>a\<close> must have the requested size or size 1.
\<close>

definition broadcast_to :: "arr2 \<Rightarrow> nat \<Rightarrow> nat \<Rightarrow> error + arr2" where
  "broadcast_to a n k =
     (if (ncols a = k \<or> ncols a = 1) \<and> (nrows a = n \<or> nrows a = 1)
      then Inr \<lparr>ncols = k,
                rows = map (\<lambda>i. map (\<lambda>j.
                  rows a ! (if nrows a = 1 then 0 else i) ! (if ncols a = 1 then 0 else j))
                  [0..<k]) [0..<n]\<rparr>
      else Inl ShapeError)"

text \<open>
  \<^verbatim>\<open>a.at[inds].add(updates)\<close> with row indices: the updates are added one after the
  other, so that a repeated index accumulates; an index out of range is dropped, as JAX
  does for scatter operations.
\<close>

definition scatter_add :: "arr2 \<Rightarrow> nat list \<Rightarrow> arr2 \<Rightarrow> arr2" where
  "scatter_add a inds updates =
     a\<lparr>rows := foldl (\<lambda>rs (j, u). if j < length rs then rs[j := map2 (+) (rs ! j) u] else rs)
        (rows a) (zip inds (rows updates))\<rparr>"

text \<open>
  \<^verbatim>\<open>a.at[inds].add(y)\<close> as JAX carries it out: when the indexed slice, of shape
  \<open>(len(inds), ncols a)\<close>, is empty, \<open>a\<close> is returned at once and \<open>y\<close> is not looked at;
  otherwise \<open>y\<close> is broadcast to the shape of the slice, which can fail, and scattered.
\<close>

definition at_add :: "arr2 \<Rightarrow> nat list \<Rightarrow> arr2 \<Rightarrow> error + arr2" where
  "at_add a inds y =
     (if length inds = 0 \<or> ncols a = 0 then Inr a
      else case broadcast_to y (length inds) (ncols a) of Inl e \<Rightarrow> Inl e
           | Inr updates \<Rightarrow> Inr (scatter_add a inds updates))"

text \<open>
  \<^verbatim>\<open>a - b\<close> with the broadcasting rule of NumPy on each of the two axes: equal sizes, or
  one of them 1; an error otherwise.
\<close>

definition broadcast_dim :: "nat \<Rightarrow> nat \<Rightarrow> nat option" where
  "broadcast_dim a b =
     (if a = b then Some a else if a = 1 then Some b else if b = 1 then Some a else None)"

definition np_sub :: "arr2 \<Rightarrow> arr2 \<Rightarrow> error + arr2" where
  "np_sub a b =
     (case (broadcast_dim (nrows a) (nrows b), broadcast_dim (ncols a) (ncols b)) of
        (Some n, Some k) \<Rightarrow>
          Inr \<lparr>ncols = k,
               rows = map (\<lambda>i. map (\<lambda>j.
                   rows a ! (if nrows a = 1 then 0 else i) ! (if ncols a = 1 then 0 else j)
                 - rows b ! (if nrows b = 1 then 0 else i) ! (if ncols b = 1 then 0 else j))
                 [0..<k]) [0..<n]\<rparr>
      | _ \<Rightarrow> Inl ShapeError)"

text \<open>
  Arrays of shape \<open>(num_cells, num_quads, vec, dim)\<close>: \<^verbatim>\<open>u_grads\<close> and \<^verbatim>\<open>u_physics\<close>. The
  last axis, of size \<open>dim = 3\<close>, is a \<^typ>\<open>vec3\<close>.
\<close>

type_synonym tensor_field = "vec3 list list list"

text \<open>
  The attributes that \<^verbatim>\<open>FEM.__init__\<close> and \<^verbatim>\<open>Laplace.__init__\<close> store. \<open>shape_grads\<close>
  is indexed \<open>[cell, quad, node]\<close>, \<open>JxW\<close> is indexed \<open>[cell, quad]\<close> and \<open>v_grads_JxW\<close>
  is indexed \<open>[cell, quad, node]\<close> (its axis of size 1 is left out).
\<close>

record fem =
  mesh_of :: mesh
  vec :: nat
  shape_vals :: "real list list"
  shape_grads :: "vec3 list list list"
  JxW :: "real list list"
  face_shape_vals :: "real list list list"
  node_inds_list :: "nat list list"
  vec_inds_list :: "nat list list"
  vals_list :: "real list list"

record laplace = fem +
  body_force :: arr2
  neumann :: arr2
  v_grads_JxW :: "vec3 list list list"

text \<open>\<^verbatim>\<open>FEM.__init__\<close>, with \<open>num_total_nodes = len(mesh.points)\<close>.\<close>

definition num_total_nodes :: "'a fem_scheme \<Rightarrow> nat" where
  "num_total_nodes fe = length (points (mesh_of fe))"

definition FEM_init :: "mesh \<Rightarrow> nat \<Rightarrow> dirichlet_bc_info \<Rightarrow> error + fem" where
  "FEM_init m v dirichlet_bc_info =
     (case get_shape_vals of Inl e \<Rightarrow> Inl e | Inr sv \<Rightarrow>
      case get_shape_grads m of Inl e \<Rightarrow> Inl e | Inr (sg, jxw) \<Rightarrow>
      case Dirichlet_boundary_conditions m dirichlet_bc_info of Inl e \<Rightarrow> Inl e
      | Inr (node_inds, vec_inds, vals) \<Rightarrow>
          Inr \<lparr>mesh_of = m, vec = v, shape_vals = sv, shape_grads = sg, JxW = jxw,
               face_shape_vals = get_face_shape_vals, node_inds_list = node_inds,
               vec_inds_list = vec_inds, vals_list = vals\<rparr>)"

text \<open>
  \<^verbatim>\<open>Laplace.compute_body_force\<close> and \<^verbatim>\<open>Laplace.compute_Neumann_integral\<close> when
  \<^verbatim>\<open>source_info\<close> and \<^verbatim>\<open>neumann_bc_info\<close> are \<^verbatim>\<open>None\<close>: the array of zeros is returned
  as it was created.
\<close>

definition compute_body_force :: "'a fem_scheme \<Rightarrow> arr2" where
  "compute_body_force fe = (let rhs = zeros (num_total_nodes fe) (vec fe) in rhs)"

definition compute_Neumann_integral :: "'a fem_scheme \<Rightarrow> arr2" where
  "compute_Neumann_integral fe =
     (let integral = zeros (num_total_nodes fe) (vec fe) in integral)"

text \<open>
  \<^verbatim>\<open>Laplace.__init__\<close> with \<^verbatim>\<open>neumann_bc_info=None\<close> and \<^verbatim>\<open>source_info=None\<close>;
  \<^verbatim>\<open>v_grads_JxW = shape_grads[:, :, :, None, :] * JxW[:, :, None, None, None]\<close>.
\<close>

definition Laplace_init :: "mesh \<Rightarrow> nat \<Rightarrow> dirichlet_bc_info \<Rightarrow> error + laplace" where
  "Laplace_init m v dirichlet_bc_info =
     (case FEM_init m v dirichlet_bc_info of Inl e \<Rightarrow> Inl e
      | Inr fe \<Rightarrow>
          Inr (fem.extend fe
            \<lparr>body_force = compute_body_force fe,
             neumann = compute_Neumann_integral fe,
             v_grads_JxW = map2 (\<lambda>sg_c jxw_c. map2 (\<lambda>sg_q jxw. map (vscale jxw) sg_q) sg_c jxw_c)
               (shape_grads fe) (JxW fe)\<rparr>))"

text \<open>
  The first two lines of \<^verbatim>\<open>Laplace.compute_residual\<close>:
  \<^verbatim>\<open>np.sum(np.take(sol, cells, axis=0)[:, None, :, :, None] * shape_grads[:, :, :, None, :], axis=2)\<close>.
  Entry \<open>[c, q, i]\<close> is the sum over the nodes \<open>n\<close> of the cell of
  \<open>sol[cells[c, n], i] * shape_grads[c, q, n]\<close>.
\<close>

definition u_grads_of :: "'a fem_scheme \<Rightarrow> arr2 \<Rightarrow> tensor_field" where
  "u_grads_of fe sol =
     (let cells_sol = map (map (np_take (rows sol))) (cells (mesh_of fe))
      in map2 (\<lambda>sol_c sg_c. map (\<lambda>sg_q. map (\<lambda>i.
           vsum (map2 (\<lambda>row g. vscale (row ! i) g) sol_c sg_q)) [0..<ncols sol]) sg_c)
           cells_sol (shape_grads fe))"

text \<open>\<^verbatim>\<open>Laplace.compute_physics\<close>: the identity on \<^verbatim>\<open>u_grads\<close>.\<close>

definition Laplace_compute_physics :: "arr2 \<Rightarrow> tensor_field \<Rightarrow> error + tensor_field" where
  "Laplace_compute_physics sol u_grads = Inr u_grads"

text \<open>
  \<^verbatim>\<open>np.sum(u_physics[:, :, None, :, :] * v_grads_JxW, axis=(1, -1))\<close>, of shape
  \<open>(num_cells, num_nodes, k)\<close> where \<open>k\<close> is the component count of \<^verbatim>\<open>u_physics\<close>: entry
  \<open>[c, n, i]\<close> is the sum over the quadrature points \<open>q\<close> of the inner product of
  \<open>u_physics[c, q, i]\<close> and \<open>v_grads_JxW[c, q, n]\<close>.
\<close>

definition weak_sum :: "tensor_field \<Rightarrow> vec3 list list list \<Rightarrow> nat \<Rightarrow> real list list list" where
  "weak_sum u_physics vg k =
     map2 (\<lambda>up_c vg_c. map (\<lambda>n. map (\<lambda>i.
       sum_list (map2 (\<lambda>up_q vg_q. vdot (up_q ! i) (vg_q ! n)) up_c vg_c))
       [0..<k]) [0..<8]) u_physics vg"

text \<open>
  \<^verbatim>\<open>Laplace.compute_residual\<close>, with the method \<^verbatim>\<open>compute_physics\<close> of the instance as a
  parameter. No line of it inspects the shape of \<^verbatim>\<open>sol\<close>: an error comes from
  \<^verbatim>\<open>np.take\<close> when \<^verbatim>\<open>sol\<close> has no row and the mesh has a cell, from
  \<^verbatim>\<open>compute_physics\<close>, from the reshape, from broadcasting the updates of the scatter, or
  from one of the two subtractions.
\<close>

definition compute_residual ::
  "(arr2 \<Rightarrow> tensor_field \<Rightarrow> error + tensor_field) \<Rightarrow> 'a laplace_scheme \<Rightarrow> arr2 \<Rightarrow> error + arr2" where
  "compute_residual compute_physics fe sol =
     (if nrows sol = 0 \<and> cells (mesh_of fe) \<noteq> [] then Inl IndexError
      else
        let u_grads = u_grads_of fe sol in
        case compute_physics sol u_grads of Inl e \<Rightarrow> Inl e
        | Inr u_physics \<Rightarrow>
            (case reshape2 (concat (concat (weak_sum u_physics (v_grads_JxW fe) (ncols sol))))
                    (vec fe) of
               Inl e \<Rightarrow> Inl e
             | Inr weak_form \<Rightarrow>
                 let res = zeros_like sol;
                     inds = concat (cells (mesh_of fe))
                 in case at_add res inds weak_form of Inl e \<Rightarrow> Inl e
                    | Inr res \<Rightarrow>
                        (case np_sub res (body_force fe) of
                           Inl e \<Rightarrow> Inl e
                         | Inr res \<Rightarrow> np_sub res (neumann fe))))"

text \<open>
  The shapes that \<^verbatim>\<open>Laplace.__init__\<close> gives the stored arrays on a well-formed mesh.
\<close>

definition laplace_ok :: "'a laplace_scheme \<Rightarrow> bool" where
  "laplace_ok fe \<longleftrightarrow>
     mesh_ok (mesh_of fe)
     \<and> length (shape_grads fe) = length (cells (mesh_of fe))
     \<and> length (v_grads_JxW fe) = length (cells (mesh_of fe))
     \<and> nrows (body_force fe) = num_total_nodes fe \<and> ncols (body_force fe) = vec fe
     \<and> nrows (neumann fe) = num_total_nodes fe \<and> ncols (neumann fe) = vec fe"

text \<open>
  The meshes on which every Jacobian of \<^verbatim>\<open>get_shape_grads\<close> can be inverted, so that the
  physical shape gradients are finite numbers.
\<close>

definition nondegenerate :: "mesh \<Rightarrow> bool" where
  "nondegenerate m = list_all (list_all (\<lambda>J. det3 J \<noteq> 0)) (jacobian_dx_deta m)"

text \<open>
  \<^verbatim>\<open>LinearPoisson('demo', mesh, dirichlet_bc_info=[[], [], []])\<close> on the unit cube: one
  cell, eight nodes, one component, no source and no Neumann data.
\<close>

definition unit_cube_problem :: laplace where
  "unit_cube_problem = projr (Laplace_init unit_cube_mesh 1 ([], [], []))"

section \<open>Plasticity: the stored state\<close>
















section \<open>Properties of the reference element\<close>

lemma upt_0_2: "[0..<2] = [0, 1]"
  by (simp add: numeral_2_eq_2)

lemma upt_0_3: "[0..<3] = [0, 1, 2]"
  by (simp add: numeral_3_eq_3 numeral_2_eq_2)

lemma length_get_quad_points: "length get_quad_points = 8"
  by (simp add: get_quad_points_def upt_0_2)

lemma length_face_quad_points:
  "map length (fst get_face_quad_points) = [4, 4, 4, 4, 4, 4]"
  by (simp add: get_face_quad_points_def face_extremes_def upt_0_2 upt_0_3)

lemma shape_vals_sum_at: "sum_list (map (\<lambda>f. f x) get_shape_val_functions) = 1"
proof -
  obtain a b c where x: "x = (a, b, c)" by (cases x)
  show ?thesis unfolding x get_shape_val_functions_def by (simp add: field_simps)
qed

lemma shape_grads_sum_at: "vsum (map (\<lambda>g. g x) get_shape_grad_functions) = vzero"
proof -
  obtain a b c where x: "x = (a, b, c)" by (cases x)
  show ?thesis unfolding x get_shape_grad_functions_def vsum_def vzero_def
    by (simp add: field_simps)
qed

lemma shape_vals_table_shape: "has_shape2 shape_vals_table 8 8"
  by (simp add: has_shape2_def shape_vals_table_def length_get_quad_points list_all_iff
      get_shape_val_functions_def)

lemma get_shape_vals_ok: "get_shape_vals = Inr shape_vals_table"
  by (simp add: get_shape_vals_def shape_vals_table_shape)

text \<open>
  The functions \<open>g1\<close> to \<open>g8\<close> are the gradients of \<open>f1\<close> to \<open>f8\<close>: each component
  is the derivative of the shape function along that coordinate.
\<close>

lemma g1_is_grad:
  "((\<lambda>t. f1 (t, b, c)) has_real_derivative fst (g1 (a, b, c))) (at a)"
  "((\<lambda>t. f1 (a, t, c)) has_real_derivative fst (snd (g1 (a, b, c)))) (at b)"
  "((\<lambda>t. f1 (a, b, t)) has_real_derivative snd (snd (g1 (a, b, c)))) (at c)"
  by (auto intro!: derivative_eq_intros)

lemma g2_is_grad:
  "((\<lambda>t. f2 (t, b, c)) has_real_derivative fst (g2 (a, b, c))) (at a)"
  "((\<lambda>t. f2 (a, t, c)) has_real_derivative fst (snd (g2 (a, b, c)))) (at b)"
  "((\<lambda>t. f2 (a, b, t)) has_real_derivative snd (snd (g2 (a, b, c)))) (at c)"
  by (auto intro!: derivative_eq_intros)

lemma g3_is_grad:
  "((\<lambda>t. f3 (t, b, c)) has_real_derivative fst (g3 (a, b, c))) (at a)"
  "((\<lambda>t. f3 (a, t, c)) has_real_derivative fst (snd (g3 (a, b, c)))) (at b)"
  "((\<lambda>t. f3 (a, b, t)) has_real_derivative snd (snd (g3 (a, b, c)))) (at c)"
  by (auto intro!: derivative_eq_intros)

lemma g4_is_grad:
  "((\<lambda>t. f4 (t, b, c)) has_real_derivative fst (g4 (a, b, c))) (at a)"
  "((\<lambda>t. f4 (a, t, c)) has_real_derivative fst (snd (g4 (a, b, c)))) (at b)"
  "((\<lambda>t. f4 (a, b, t)) has_real_derivative snd (snd (g4 (a, b, c)))) (at c)"
  by (auto intro!: derivative_eq_intros)

lemma g5_is_grad:
  "((\<lambda>t. f5 (t, b, c)) has_real_derivative fst (g5 (a, b, c))) (at a)"
  "((\<lambda>t. f5 (a, t, c)) has_real_derivative fst (snd (g5 (a, b, c)))) (at b)"
  "((\<lambda>t. f5 (a, b, t)) has_real_derivative snd (snd (g5 (a, b, c)))) (at c)"
  by (auto intro!: derivative_eq_intros)

lemma g6_is_grad:
  "((\<lambda>t. f6 (t, b, c)) has_real_derivative fst (g6 (a, b, c))) (at a)"
  "((\<lambda>t. f6 (a, t, c)) has_real_derivative fst (snd (g6 (a, b, c)))) (at b)"
  "((\<lambda>t. f6 (a, b, t)) has_real_derivative snd (snd (g6 (a, b, c)))) (at c)"
  by (auto intro!: derivative_eq_intros)

lemma g7_is_grad:
  "((\<lambda>t. f7 (t, b, c)) has_real_derivative fst (g7 (a, b, c))) (at a)"
  "((\<lambda>t. f7 (a, t, c)) has_real_derivative fst (snd (g7 (a, b, c)))) (at b)"
  "((\<lambda>t. f7 (a, b, t)) has_real_derivative snd (snd (g7 (a, b, c)))) (at c)"
  by (auto intro!: derivative_eq_intros)

lemma g8_is_grad:
  "((\<lambda>t. f8 (t, b, c)) has_real_derivative fst (g8 (a, b, c))) (at a)"
  "((\<lambda>t. f8 (a, t, c)) has_real_derivative fst (snd (g8 (a, b, c)))) (at b)"
  "((\<lambda>t. f8 (a, b, t)) has_real_derivative snd (snd (g8 (a, b, c)))) (at c)"
  by (auto intro!: derivative_eq_intros)

text \<open>
  Claim C10 (partition of unity). At each of the 8 volumetric quadrature points and at
  each of the 4 quadrature points of each of the 6 faces, the 8 shape function values
  sum to 1 and the 8 reference shape gradients sum to the zero vector. The tables are
  those of \<^verbatim>\<open>get_shape_vals\<close>, \<^verbatim>\<open>get_face_shape_vals\<close>,
  \<^verbatim>\<open>get_shape_grads\<close> and \<^verbatim>\<open>get_face_shape_grads\<close>.
\<close>

theorem partition_of_unity:
  "get_shape_vals = Inr shape_vals_table
   \<and> map sum_list shape_vals_table = replicate 8 1
   \<and> map (map sum_list) get_face_shape_vals = replicate 6 (replicate 4 1)
   \<and> map vsum shape_grads_reference = replicate 8 vzero
   \<and> map (map vsum) face_shape_grads_reference = replicate 6 (replicate 4 vzero)"
proof -
  have v: "map sum_list shape_vals_table = replicate 8 1"
    by (simp add: shape_vals_table_def comp_def shape_vals_sum_at map_replicate_const
        length_get_quad_points)
  have g: "map vsum shape_grads_reference = replicate 8 vzero"
    by (simp add: shape_grads_reference_def comp_def shape_grads_sum_at map_replicate_const
        length_get_quad_points)
  have fv: "map (map sum_list) get_face_shape_vals
      = map (\<lambda>qs. replicate (length qs) 1) (fst get_face_quad_points)"
    by (simp add: get_face_shape_vals_def comp_def shape_vals_sum_at map_replicate_const)
  have fg: "map (map vsum) face_shape_grads_reference
      = map (\<lambda>qs. replicate (length qs) vzero) (fst get_face_quad_points)"
    by (simp add: face_shape_grads_reference_def comp_def shape_grads_sum_at
        map_replicate_const)
  have r: "map (\<lambda>qs. replicate (length qs) k) (fst get_face_quad_points)
      = replicate 6 (replicate 4 k)" for k :: 'a
  proof -
    have "map (\<lambda>qs. replicate (length qs) k) (fst get_face_quad_points)
        = map (\<lambda>n. replicate n k) (map length (fst get_face_quad_points))"
      by (simp add: comp_def)
    also have "\<dots> = replicate 6 (replicate 4 k)"
      unfolding length_face_quad_points by (simp add: numeral_eq_Suc)
    finally show ?thesis .
  qed
  show ?thesis
    using v g fv fg r [of "1::real"] r [of vzero] get_shape_vals_ok by simp
qed

section \<open>The return mapping\<close>









section \<open>Boundary conditions\<close>

lemma upt_0_8: "[0..<8] = [0, 1, 2, 3, 4, 5, 6, 7]"
  by (simp add: upt_conv_Cons)



lemma argwhere_map:
  "argwhere (map P xs) = filter (\<lambda>j. P (xs ! j)) [0..<length xs]"
  by (auto simp: argwhere_def intro: filter_cong)

lemma argwhere_sorted: "sorted (argwhere flags) \<and> distinct (argwhere flags)"
  by (simp add: argwhere_def sorted_wrt_filter)




lemma np_take_in_range: "i < length xs \<Longrightarrow> np_take xs i = xs ! i"
  by (simp add: np_take_def min_absorb1)

text \<open>
  Claim C8. If the three lists of a Dirichlet specification (location functions,
  components, value functions) do not all have the same length, the resolution fails
  with an assertion error: the assertion precedes the loop, so that no node index and no
  value is computed.
\<close>

theorem dirichlet_length_mismatch:
  "\<not> (length location_fns = length value_fns \<and> length value_fns = length vecs)
     \<Longrightarrow> Dirichlet_boundary_conditions m (location_fns, vecs, value_fns) = Inl AssertionError"
  by (simp add: Dirichlet_boundary_conditions_def)

text \<open>
  Claim C6. For a Dirichlet specification of \<open>n\<close> entries with lists of equal length,
  the resolver returns three lists of length \<open>n\<close>; for each entry \<open>i\<close>,
  \<open>node_inds_list ! i\<close> is exactly the indices of the mesh points that satisfy location
  function \<open>i\<close> (in increasing order), \<open>vals_list ! i\<close> is value function \<open>i\<close> at those
  points, and \<open>vec_inds_list ! i\<close> is constant \<open>vecs ! i\<close> of the same length. The entries
  are resolved independently, without deduplication: a node that satisfies the location
  functions of two entries is listed in both.
\<close>

theorem dirichlet_resolution:
  assumes "length location_fns = n" and "length vecs = n" and "length value_fns = n"
  shows "\<exists>node_inds_list vec_inds_list vals_list.
     Dirichlet_boundary_conditions m (location_fns, vecs, value_fns)
       = Inr (node_inds_list, vec_inds_list, vals_list)
     \<and> length node_inds_list = n \<and> length vec_inds_list = n \<and> length vals_list = n
     \<and> (\<forall>i<n.
           node_inds_list ! i
             = filter (\<lambda>j. (location_fns ! i) (points m ! j)) [0..<length (points m)]
         \<and> set (node_inds_list ! i)
             = {j. j < length (points m) \<and> (location_fns ! i) (points m ! j)}
         \<and> vals_list ! i = map (\<lambda>j. (value_fns ! i) (points m ! j)) (node_inds_list ! i)
         \<and> vec_inds_list ! i = replicate (length (node_inds_list ! i)) (vecs ! i))
     \<and> (\<forall>i<n. \<forall>k<n. \<forall>j<length (points m).
           (location_fns ! i) (points m ! j) \<and> (location_fns ! k) (points m ! j)
           \<longrightarrow> j \<in> set (node_inds_list ! i) \<and> j \<in> set (node_inds_list ! k))"
proof -
  have take: "map (value_fn \<circ> np_take (points m))
        (filter (\<lambda>j. P (points m ! j)) [0..<length (points m)])
      = map (\<lambda>j. value_fn (points m ! j))
        (filter (\<lambda>j. P (points m ! j)) [0..<length (points m)])" for value_fn P
    by (rule map_cong) (auto simp: np_take_in_range)
  show ?thesis
    using assms
    by (auto simp: Dirichlet_boundary_conditions_def Let_def argwhere_map comp_def
        map_replicate_const take [unfolded comp_def])
qed



lemma mesh_ok_cell:
  assumes "mesh_ok m" and "c < length (cells m)"
  shows "length (cells m ! c) = 8" and "n < 8 \<Longrightarrow> cells m ! c ! n < length (points m)"
  using assms by (auto simp: mesh_ok_def list_all_length)






lemma mesh_ok_unit_cube: "mesh_ok unit_cube_mesh"
  by (simp add: mesh_ok_def unit_cube_mesh_def)


theorem dirichlet_length_mismatch_witness:
  "Dirichlet_boundary_conditions unit_cube_mesh ([\<lambda>p. vnth p 0 = 0], [], [])
     = Inl AssertionError"
  using dirichlet_length_mismatch [of "[\<lambda>p. vnth p 0 = 0]" "[]" "[]" unit_cube_mesh]
  by simp

lemma list_2: "length xs = 2 \<Longrightarrow> xs = [xs ! 0, xs ! 1]"
  by (cases xs; cases "tl xs") auto

theorem dirichlet_resolution_witness:
  "Dirichlet_boundary_conditions unit_cube_mesh
     ([\<lambda>p. vnth p 0 = 0, \<lambda>p. vnth p 0 = 0], [1, 1], [\<lambda>p. 0, \<lambda>p. 1 + vnth p 2])
   = Inr ([[0, 3, 4, 7], [0, 3, 4, 7]], [[1, 1, 1, 1], [1, 1, 1, 1]], [[0, 0, 0, 0], [1, 1, 2, 2]])"
proof -
  let ?locs = "[\<lambda>p. vnth p 0 = 0, \<lambda>p. vnth p 0 = 0] :: (vec3 \<Rightarrow> bool) list"
  let ?vals = "[\<lambda>p. 0, \<lambda>p. 1 + vnth p 2] :: (vec3 \<Rightarrow> real) list"
  obtain nl vl valsl where
    r: "Dirichlet_boundary_conditions unit_cube_mesh (?locs, [1, 1], ?vals) = Inr (nl, vl, valsl)"
    and l: "length nl = 2" "length vl = 2" "length valsl = 2"
    and e: "\<forall>i<2. nl ! i = filter (\<lambda>j. (?locs ! i) (points unit_cube_mesh ! j))
               [0..<length (points unit_cube_mesh)]
             \<and> valsl ! i = map (\<lambda>j. (?vals ! i) (points unit_cube_mesh ! j)) (nl ! i)
             \<and> vl ! i = replicate (length (nl ! i)) ([1, 1] ! i)"
    using dirichlet_resolution [of ?locs 2 "[1, 1]" ?vals unit_cube_mesh] by auto
  have n0: "nl ! 0 = [0, 3, 4, 7]" and n1: "nl ! 1 = [0, 3, 4, 7]"
    using e by (simp_all add: unit_cube_mesh_def upt_0_8)
  have v0: "valsl ! 0 = [0, 0, 0, 0]" and v1: "valsl ! 1 = [1, 1, 2, 2]"
    using e n0 n1 by (simp_all add: unit_cube_mesh_def)
  have c0: "vl ! 0 = [1, 1, 1, 1]" and c1: "vl ! 1 = [1, 1, 1, 1]"
    using e n0 n1 by (simp_all add: numeral_eq_Suc)
  show ?thesis
    using r list_2 [OF l(1)] list_2 [OF l(2)] list_2 [OF l(3)] n0 n1 v0 v1 c0 c1 by simp
qed

section \<open>Geometric mapping\<close>

lemma vec_mat_adjugate3: "vec_mat (vec_mat g (adjugate3 J)) J = vscale (det3 J) g"
proof -
  obtain a b c d e f h i k where J: "J = ((a, b, c), (d, e, f), (h, i, k))"
    by (metis prod_cases3)
  obtain g0 g1 g2 where g: "g = (g0, g1, g2)" by (cases g)
  show ?thesis
    unfolding J g by (simp add: algebra_simps)
qed

lemma vec_mat_mdivs: "vec_mat g (mdivs A d) = vdivs (vec_mat g A) d"
proof -
  obtain a b c d' e f h i k where A: "A = ((a, b, c), (d', e, f), (h, i, k))"
    by (metis prod_cases3)
  obtain g0 g1 g2 where g: "g = (g0, g1, g2)" by (cases g)
  show ?thesis
    unfolding A g by (simp add: add_divide_distrib)
qed

lemma vec_mat_vdivs: "vec_mat (vdivs g d) J = vdivs (vec_mat g J) d"
proof -
  obtain a b c d' e f h i k where J: "J = ((a, b, c), (d', e, f), (h, i, k))"
    by (metis prod_cases3)
  obtain g0 g1 g2 where g: "g = (g0, g1, g2)" by (cases g)
  show ?thesis
    unfolding J g by (simp add: add_divide_distrib)
qed

lemma vdivs_vscale: "d \<noteq> 0 \<Longrightarrow> vdivs (vscale d g) d = g"
  by (cases g) simp

lemma vec_mat_inv3:
  assumes "det3 J \<noteq> 0"
  shows "vec_mat (vec_mat g (inv3 J)) J = g"
  using assms
  by (simp add: inv3_def vec_mat_mdivs vec_mat_vdivs vec_mat_adjugate3 vdivs_vscale)

lemma shape_grads_reference_shape: "has_shape2 shape_grads_reference 8 8"
  by (simp add: has_shape2_def shape_grads_reference_def length_get_quad_points list_all_iff
      get_shape_grad_functions_def)

lemma length_shape_grads_reference: "length shape_grads_reference = 8"
  using shape_grads_reference_shape by (simp add: has_shape2_def)

lemma length_shape_grads_reference_nth: "q < 8 \<Longrightarrow> length (shape_grads_reference ! q) = 8"
  using shape_grads_reference_shape by (simp add: has_shape2_def list_all_length)

lemma map_by_index: "map f xs = map (\<lambda>i. f (xs ! i)) [0..<length xs]"
proof -
  have "map f xs = map f (map (\<lambda>i. xs ! i) [0..<length xs])"
    by (simp only: map_nth)
  then show ?thesis by (simp add: comp_def)
qed

lemma map2_by_index:
  "length xs = length ys \<Longrightarrow> map2 f xs ys = map (\<lambda>i. f (xs ! i) (ys ! i)) [0..<length xs]"
  by (rule nth_equalityI) simp_all

lemma mesh_ok_coos:
  assumes "mesh_ok m" and c: "c < length (cells m)"
  shows "map (np_take (points m)) (cells m ! c) = map (\<lambda>n. points m ! n) (cells m ! c)"
proof (rule map_cong [OF refl])
  fix x assume "x \<in> set (cells m ! c)"
  then obtain n where "n < 8" and "x = cells m ! c ! n"
    using mesh_ok_cell(1) [OF assms] by (metis in_set_conv_nth)
  then show "np_take (points m) x = points m ! x"
    using mesh_ok_cell(2) [OF assms] by (simp add: np_take_in_range)
qed

lemma jacobian_dx_deta_index:
  assumes "mesh_ok m"
  shows "jacobian_dx_deta m = map (\<lambda>c. map (\<lambda>q.
      mat_sum (map2 outer (map (\<lambda>n. points m ! n) (cells m ! c)) (shape_grads_reference ! q)))
      [0..<8]) [0..<length (cells m)]"
proof -
  have j0: "map (\<lambda>grads_ref. mat_sum (map2 outer coos grads_ref)) shape_grads_reference
      = map (\<lambda>q. mat_sum (map2 outer coos (shape_grads_reference ! q))) [0..<8]" for coos
    using map_by_index [of _ shape_grads_reference]
    by (simp only: length_shape_grads_reference)
  have "jacobian_dx_deta m
      = map (\<lambda>c. map (\<lambda>q. mat_sum (map2 outer (map (np_take (points m)) (cells m ! c))
          (shape_grads_reference ! q))) [0..<8]) [0..<length (cells m)]"
    unfolding jacobian_dx_deta_def Let_def j0 map_map comp_def by (rule map_by_index)
  also have "\<dots> = map (\<lambda>c. map (\<lambda>q.
      mat_sum (map2 outer (map (\<lambda>n. points m ! n) (cells m ! c)) (shape_grads_reference ! q)))
      [0..<8]) [0..<length (cells m)]"
    by (rule map_cong [OF refl]) (simp add: mesh_ok_coos [OF assms])
  finally show ?thesis .
qed

lemma get_shape_grads_eq:
  "get_shape_grads m = Inr
     (map (\<lambda>inv_c. map2 (\<lambda>grads_ref inv_q. map (\<lambda>g. vec_mat g inv_q) grads_ref)
        shape_grads_reference inv_c) (map (map inv3) (jacobian_dx_deta m)),
      map (map det3) (jacobian_dx_deta m))"
  by (simp add: get_shape_grads_def shape_grads_reference_shape Let_def comp_def)

text \<open>
  Claim C4, as amended. \<^verbatim>\<open>get_shape_grads\<close> makes no check of the Jacobian
  determinant: on every well-formed mesh it returns, without error, the physical gradients
  and \<^verbatim>\<open>JxW\<close>, where \<open>JxW ! c ! q\<close> is the determinant of the Jacobian of cell \<open>c\<close>
  at quadrature point \<open>q\<close>, whatever its sign; where that determinant is not zero, the
  physical gradient of each node times the Jacobian is the reference gradient.
\<close>

theorem shape_grads_no_determinant_check:
  assumes "mesh_ok m"
  shows "\<exists>grads JxW. get_shape_grads m = Inr (grads, JxW)
     \<and> length grads = length (cells m) \<and> length JxW = length (cells m)
     \<and> (\<forall>c<length (cells m). \<forall>q<8.
          let J = mat_sum (map2 outer (map (\<lambda>n. points m ! n) (cells m ! c))
                    (shape_grads_reference ! q))
          in JxW ! c ! q = det3 J
             \<and> (det3 J \<noteq> 0 \<longrightarrow>
                  (\<forall>n<8. vec_mat (grads ! c ! q ! n) J = shape_grads_reference ! q ! n)))"
proof -
  define jac where "jac = (\<lambda>c q. mat_sum (map2 outer (map (\<lambda>n. points m ! n) (cells m ! c))
    (shape_grads_reference ! q)))"
  let ?grads = "map (\<lambda>c. map (\<lambda>q. map (\<lambda>g. vec_mat g (inv3 (jac c q)))
    (shape_grads_reference ! q)) [0..<8]) [0..<length (cells m)]"
  let ?JxW = "map (\<lambda>c. map (\<lambda>q. det3 (jac c q)) [0..<8]) [0..<length (cells m)]"
  have j: "jacobian_dx_deta m = map (\<lambda>c. map (\<lambda>q. jac c q) [0..<8]) [0..<length (cells m)]"
    unfolding jac_def by (rule jacobian_dx_deta_index [OF assms])
  have g: "map2 (\<lambda>grads_ref inv_q. map (\<lambda>g. vec_mat g inv_q) grads_ref) shape_grads_reference
        (map (\<lambda>q. inv3 (jac c q)) [0..<8])
      = map (\<lambda>q. map (\<lambda>g. vec_mat g (inv3 (jac c q))) (shape_grads_reference ! q)) [0..<8]" for c
    by (subst map2_by_index) (simp_all add: length_shape_grads_reference cong: map_cong)
  have r: "get_shape_grads m = Inr (?grads, ?JxW)"
    unfolding get_shape_grads_eq j by (simp add: comp_def g)
  have p: "?JxW ! c ! q = det3 (jac c q)
      \<and> (det3 (jac c q) \<noteq> 0 \<longrightarrow>
           (\<forall>n<8. vec_mat (?grads ! c ! q ! n) (jac c q) = shape_grads_reference ! q ! n))"
    if "c < length (cells m)" and "q < 8" for c q
    using that by (simp add: length_shape_grads_reference_nth vec_mat_inv3)
  have "\<exists>grads JxW. get_shape_grads m = Inr (grads, JxW)
     \<and> length grads = length (cells m) \<and> length JxW = length (cells m)
     \<and> (\<forall>c<length (cells m). \<forall>q<8.
          JxW ! c ! q = det3 (jac c q)
          \<and> (det3 (jac c q) \<noteq> 0 \<longrightarrow>
               (\<forall>n<8. vec_mat (grads ! c ! q ! n) (jac c q) = shape_grads_reference ! q ! n)))"
    using p by (intro exI [of _ ?grads] exI [of _ ?JxW] conjI r allI impI) simp_all
  then show ?thesis
    by (simp only: Let_def jac_def)
qed

lemma shape_grads_reference_nth:
  "q < 8 \<Longrightarrow> shape_grads_reference ! q
     = map (\<lambda>g. g (get_quad_points ! q)) get_shape_grad_functions"
  by (simp add: shape_grads_reference_def length_get_quad_points)

lemma jacobian_mirrored_cube:
  "mat_sum (map2 outer
       [(0, 0, 0), (- 1, 0, 0), (- 1, 1, 0), (0, 1, 0), (0, 0, 1), (- 1, 0, 1), (- 1, 1, 1), (0, 1, 1)]
       (map (\<lambda>g. g x) get_shape_grad_functions))
     = ((- 1 / 2, 0, 0), (0, 1 / 2, 0), (0, 0, 1 / 2))"
proof -
  obtain a b c where x: "x = (a, b, c)" by (cases x)
  show ?thesis
    unfolding x get_shape_grad_functions_def mat_sum_def mzero_def vzero_def
    by (simp add: field_simps)
qed

lemma jacobian_unit_cube:
  "mat_sum (map2 outer
       [(0, 0, 0), (1, 0, 0), (1, 1, 0), (0, 1, 0), (0, 0, 1), (1, 0, 1), (1, 1, 1), (0, 1, 1)]
       (map (\<lambda>g. g x) get_shape_grad_functions))
     = ((1 / 2, 0, 0), (0, 1 / 2, 0), (0, 0, 1 / 2))"
proof -
  obtain a b c where x: "x = (a, b, c)" by (cases x)
  show ?thesis
    unfolding x get_shape_grad_functions_def mat_sum_def mzero_def vzero_def
    by (simp add: field_simps)
qed

lemma mesh_ok_mirrored_cube: "mesh_ok mirrored_cube_mesh"
  by (simp add: mesh_ok_def mirrored_cube_mesh_def)

lemma jacobian_dx_deta_mirrored_cube:
  "jacobian_dx_deta mirrored_cube_mesh
     = [replicate 8 ((- 1 / 2, 0, 0), (0, 1 / 2, 0), (0, 0, 1 / 2))]"
proof -
  have "jacobian_dx_deta mirrored_cube_mesh
      = [map (\<lambda>q. ((- 1 / 2, 0, 0), (0, 1 / 2, 0), (0, 0, 1 / 2))) [0..<8]]"
    unfolding jacobian_dx_deta_index [OF mesh_ok_mirrored_cube]
    by (simp add: mirrored_cube_mesh_def shape_grads_reference_nth jacobian_mirrored_cube
        cong: map_cong)
  then show ?thesis by (simp add: map_replicate_const)
qed

lemma jacobian_dx_deta_unit_cube:
  "jacobian_dx_deta unit_cube_mesh
     = [replicate 8 ((1 / 2, 0, 0), (0, 1 / 2, 0), (0, 0, 1 / 2))]"
proof -
  have "jacobian_dx_deta unit_cube_mesh
      = [map (\<lambda>q. ((1 / 2, 0, 0), (0, 1 / 2, 0), (0, 0, 1 / 2))) [0..<8]]"
    unfolding jacobian_dx_deta_index [OF mesh_ok_unit_cube]
    by (simp add: unit_cube_mesh_def shape_grads_reference_nth jacobian_unit_cube
        cong: map_cong)
  then show ?thesis by (simp add: map_replicate_const)
qed

text \<open>
  Claim C4 as stated fails: on the mirrored unit cube every Jacobian determinant is
  \<open>- 1/8\<close>, and \<^verbatim>\<open>get_shape_grads\<close> returns \<^verbatim>\<open>JxW\<close> with these negative
  entries instead of an error.
\<close>

theorem shape_grads_negative_determinant:
  "map (map det3) (jacobian_dx_deta mirrored_cube_mesh) = [replicate 8 (- 1 / 8)]
   \<and> map_sum id snd (get_shape_grads mirrored_cube_mesh) = Inr [replicate 8 (- 1 / 8)]"
  by (simp add: get_shape_grads_eq jacobian_dx_deta_mirrored_cube)

theorem shape_grads_no_determinant_check_witness:
  "mesh_ok mirrored_cube_mesh
   \<and> \<not> isl (get_shape_grads mirrored_cube_mesh)
   \<and> snd (projr (get_shape_grads mirrored_cube_mesh)) ! 0 ! 0 = - 1 / 8"
proof -
  obtain grads JxW where r: "get_shape_grads mirrored_cube_mesh = Inr (grads, JxW)"
    and d: "\<forall>c<length (cells mirrored_cube_mesh). \<forall>q<8.
          let J = mat_sum (map2 outer (map (\<lambda>n. points mirrored_cube_mesh ! n)
                    (cells mirrored_cube_mesh ! c)) (shape_grads_reference ! q))
          in JxW ! c ! q = det3 J
             \<and> (det3 J \<noteq> 0 \<longrightarrow>
                  (\<forall>n<8. vec_mat (grads ! c ! q ! n) J = shape_grads_reference ! q ! n))"
    using shape_grads_no_determinant_check [OF mesh_ok_mirrored_cube] by blast
  have "JxW ! 0 ! 0 = - 1 / 8"
    using d [rule_format, of 0 0]
    by (simp add: Let_def mirrored_cube_mesh_def shape_grads_reference_nth jacobian_mirrored_cube)
  then show ?thesis
    using r mesh_ok_mirrored_cube by simp
qed

section \<open>Residual assembly\<close>

subsection \<open>Shapes\<close>

lemma length_concat_const:
  "(\<And>xs. xs \<in> set xss \<Longrightarrow> length xs = k) \<Longrightarrow> length (concat xss) = length xss * k"
  by (induction xss) simp_all

lemma nrows_zeros [simp]: "nrows (zeros n k) = n"
  and ncols_zeros [simp]: "ncols (zeros n k) = k"
  by (simp_all add: zeros_def nrows_def)

lemma reshape2_isl: "isl (reshape2 flat k) \<longleftrightarrow> k = 0 \<or> length flat mod k \<noteq> 0"
  by (simp add: reshape2_def)

lemma reshape2_shape:
  "reshape2 flat k = Inr a \<Longrightarrow> nrows a = length flat div k \<and> ncols a = k"
  by (auto simp: reshape2_def nrows_def split: if_splits)

lemma broadcast_to_isl:
  "isl (broadcast_to a n k) \<longleftrightarrow> \<not> ((ncols a = k \<or> ncols a = 1) \<and> (nrows a = n \<or> nrows a = 1))"
  by (simp add: broadcast_to_def)

lemma broadcast_to_shape:
  "broadcast_to a n k = Inr b \<Longrightarrow> nrows b = n \<and> ncols b = k"
  by (auto simp: broadcast_to_def nrows_def split: if_splits)

lemma length_scatter_fold:
  "length (foldl (\<lambda>rs (j, u). if j < length rs then rs[j := map2 (+) (rs ! j) u] else rs) rs0 ps)
     = length rs0"
  by (induction ps arbitrary: rs0) (simp_all add: case_prod_unfold)

lemma scatter_add_shape [simp]:
  "nrows (scatter_add a inds updates) = nrows a"
  "ncols (scatter_add a inds updates) = ncols a"
  by (simp_all add: scatter_add_def nrows_def length_scatter_fold)

lemma broadcast_dim_None:
  "broadcast_dim a b = None \<longleftrightarrow> a \<noteq> b \<and> a \<noteq> 1 \<and> b \<noteq> 1"
  by (simp add: broadcast_dim_def)

lemma np_sub_isl:
  "isl (np_sub a b) \<longleftrightarrow>
     broadcast_dim (nrows a) (nrows b) = None \<or> broadcast_dim (ncols a) (ncols b) = None"
  by (auto simp: np_sub_def split: option.splits)

lemma np_sub_shape:
  "np_sub a b = Inr r \<Longrightarrow>
     broadcast_dim (nrows a) (nrows b) = Some (nrows r)
     \<and> broadcast_dim (ncols a) (ncols b) = Some (ncols r)"
  by (auto simp: np_sub_def nrows_def split: option.splits)

lemma mesh_ok_length_inds:
  assumes "mesh_ok m"
  shows "length (concat (cells m)) = length (cells m) * 8"
  using assms by (intro length_concat_const) (simp add: mesh_ok_def list_all_iff)

lemma length_weak_flat:
  "length (concat (concat (weak_sum us vgs k))) = min (length us) (length vgs) * 8 * k"
proof -
  have 1: "length (concat (weak_sum us vgs k)) = length (weak_sum us vgs k) * 8"
    by (rule length_concat_const) (auto simp: weak_sum_def)
  have 2: "length (concat (concat (weak_sum us vgs k))) = length (concat (weak_sum us vgs k)) * k"
    by (rule length_concat_const) (auto simp: weak_sum_def)
  show ?thesis unfolding 2 1 by (simp add: weak_sum_def)
qed

lemma length_u_grads_of:
  "length (u_grads_of fe sol) = min (length (cells (mesh_of fe))) (length (shape_grads fe))"
  by (simp add: u_grads_of_def Let_def)

lemma not_isl_obtain: "\<not> isl x \<Longrightarrow> \<exists>y. x = Inr y"
  by (cases x) simp_all

lemma nrows_zeros_like [simp]: "nrows (zeros_like a) = nrows a"
  and ncols_zeros_like [simp]: "ncols (zeros_like a) = ncols a"
  by (simp_all add: zeros_like_def)

lemma at_add_isl:
  "isl (at_add a inds y) \<longleftrightarrow>
     length inds \<noteq> 0 \<and> ncols a \<noteq> 0 \<and> isl (broadcast_to y (length inds) (ncols a))"
  by (cases "broadcast_to y (length inds) (ncols a)") (simp_all add: at_add_def)

lemma at_add_shape:
  "at_add a inds y = Inr r \<Longrightarrow> nrows r = nrows a \<and> ncols r = ncols a"
  by (auto simp: at_add_def split: if_splits sum.splits)

lemma broadcast_dim_again:
  "broadcast_dim a b = Some c \<Longrightarrow> broadcast_dim c b \<noteq> None"
  by (auto simp: broadcast_dim_def split: if_splits)

lemma np_sub_twice_isl:
  assumes "nrows b = n" "ncols b = k" "nrows b' = n" "ncols b' = k"
  shows "isl (case np_sub r b of Inl e \<Rightarrow> Inl e | Inr r' \<Rightarrow> np_sub r' b') \<longleftrightarrow>
     broadcast_dim (nrows r) n = None \<or> broadcast_dim (ncols r) k = None"
proof (cases "np_sub r b")
  case (Inl e)
  then have "isl (np_sub r b)" by simp
  then have "broadcast_dim (nrows r) n = None \<or> broadcast_dim (ncols r) k = None"
    by (simp add: np_sub_isl assms)
  then show ?thesis
    using Inl by simp
next
  case (Inr r')
  have "\<not> isl (np_sub r b)" using Inr by simp
  then have ok: "broadcast_dim (nrows r) n \<noteq> None" "broadcast_dim (ncols r) k \<noteq> None"
    by (simp_all add: np_sub_isl assms)
  have sh: "broadcast_dim (nrows r) n = Some (nrows r')"
    "broadcast_dim (ncols r) k = Some (ncols r')"
    using np_sub_shape [OF Inr] by (simp_all add: assms)
  have "broadcast_dim (nrows r') n \<noteq> None"
    by (rule broadcast_dim_again [OF sh(1)])
  moreover have "broadcast_dim (ncols r') k \<noteq> None"
    by (rule broadcast_dim_again [OF sh(2)])
  ultimately have "\<not> isl (np_sub r' b')"
    by (simp add: np_sub_isl assms)
  then show ?thesis
    using Inr ok by simp
qed

lemma residual_shape_errors:
  assumes ok: "laplace_ok fe" and v1: "1 \<le> vec fe" and c: "cells (mesh_of fe) \<noteq> []"
  shows "isl (compute_residual Laplace_compute_physics fe sol) \<longleftrightarrow>
      nrows sol = 0
      \<or> (ncols sol \<noteq> vec fe \<and> \<not> (ncols sol = 0 \<and> vec fe = 1))
      \<or> (nrows sol \<noteq> num_total_nodes fe \<and> nrows sol \<noteq> 1 \<and> num_total_nodes fe \<noteq> 1)"
proof (cases "nrows sol = 0")
  case True
  then show ?thesis
    using c by (simp add: compute_residual_def)
next
  case n0: False
  define C where "C = length (cells (mesh_of fe))"
  define inds where "inds = concat (cells (mesh_of fe))"
  define flat where
    "flat = concat (concat (weak_sum (u_grads_of fe sol) (v_grads_JxW fe) (ncols sol)))"
  define tail where "tail = (\<lambda>r. case np_sub r (body_force fe) of Inl e \<Rightarrow> Inl e
      | Inr r' \<Rightarrow> np_sub r' (neumann fe))"
  have lens: "length (shape_grads fe) = C" "length (v_grads_JxW fe) = C"
    and bf: "nrows (body_force fe) = num_total_nodes fe" "ncols (body_force fe) = vec fe"
    and nm: "nrows (neumann fe) = num_total_nodes fe" "ncols (neumann fe) = vec fe"
    and m: "mesh_ok (mesh_of fe)"
    using ok by (simp_all add: laplace_ok_def C_def)
  have C: "1 \<le> C" using c by (cases "cells (mesh_of fe)") (simp_all add: C_def)
  have flat: "length flat = C * 8 * ncols sol"
    unfolding flat_def length_weak_flat by (simp add: length_u_grads_of lens C_def [symmetric])
  have inds: "length inds = C * 8"
    unfolding inds_def C_def by (rule mesh_ok_length_inds [OF m])
  have unfold: "compute_residual Laplace_compute_physics fe sol =
      (case reshape2 flat (vec fe) of Inl e \<Rightarrow> Inl e
       | Inr weak_form \<Rightarrow>
           (case at_add (zeros_like sol) inds weak_form of Inl e \<Rightarrow> Inl e
            | Inr r \<Rightarrow> tail r))"
    unfolding compute_residual_def Laplace_compute_physics_def Let_def flat_def inds_def tail_def
    using n0 by simp
  have tail: "isl (tail r) \<longleftrightarrow>
      broadcast_dim (nrows r) (num_total_nodes fe) = None
      \<or> broadcast_dim (ncols r) (vec fe) = None" for r
    unfolding tail_def by (rule np_sub_twice_isl [OF bf nm])
  have rows: "broadcast_dim (nrows sol) (num_total_nodes fe) = None \<longleftrightarrow>
      nrows sol \<noteq> num_total_nodes fe \<and> nrows sol \<noteq> 1 \<and> num_total_nodes fe \<noteq> 1"
    by (rule broadcast_dim_None)
  consider (same) "ncols sol = vec fe" | (none) "ncols sol = 0" "ncols sol \<noteq> vec fe"
    | (other) "ncols sol \<noteq> vec fe" "ncols sol \<noteq> 0"
    by blast
  then show ?thesis
  proof cases
    case same
    have "\<not> isl (reshape2 flat (vec fe))"
      using v1 by (simp add: reshape2_isl flat same)
    then obtain wf where wf: "reshape2 flat (vec fe) = Inr wf"
      using not_isl_obtain by blast
    have wfs: "nrows wf = C * 8" "ncols wf = vec fe"
      using reshape2_shape [OF wf] v1 by (simp_all add: flat same)
    have "\<not> isl (at_add (zeros_like sol) inds wf)"
      by (simp add: at_add_isl broadcast_to_isl wfs inds same)
    then obtain r where r: "at_add (zeros_like sol) inds wf = Inr r"
      using not_isl_obtain by blast
    have eq: "compute_residual Laplace_compute_physics fe sol = tail r"
      by (simp add: unfold wf r)
    show ?thesis
      unfolding eq tail using at_add_shape [OF r] n0 same
      by (simp add: rows broadcast_dim_def)
  next
    case none
    have "\<not> isl (reshape2 flat (vec fe))"
      using v1 by (simp add: reshape2_isl flat none)
    then obtain wf where wf: "reshape2 flat (vec fe) = Inr wf"
      using not_isl_obtain by blast
    have r: "at_add (zeros_like sol) inds wf = Inr (zeros_like sol)"
      by (simp add: at_add_def none)
    have eq: "compute_residual Laplace_compute_physics fe sol = tail (zeros_like sol)"
      by (simp add: unfold wf r)
    show ?thesis
      unfolding eq tail using n0 none v1
      by (auto simp: rows broadcast_dim_None)
  next
    case other
    have "isl (compute_residual Laplace_compute_physics fe sol)"
    proof (cases "reshape2 flat (vec fe)")
      case (Inl e)
      then show ?thesis unfolding unfold by simp
    next
      case (Inr wf)
      have wfs: "nrows wf = C * 8 * ncols sol div vec fe" "ncols wf = vec fe"
        using reshape2_shape [OF Inr] by (simp_all add: flat)
      have "isl (broadcast_to wf (length inds) (ncols sol))"
      proof (rule ccontr)
        assume "\<not> isl (broadcast_to wf (length inds) (ncols sol))"
        then have one: "vec fe = 1"
          and r: "C * 8 * ncols sol div vec fe = C * 8 \<or> C * 8 * ncols sol div vec fe = 1"
          using other by (auto simp: broadcast_to_isl wfs inds)
        from r one have "C * 8 * ncols sol = C * 8 \<or> C * 8 * ncols sol = 1" by simp
        then show False using C other one by auto
      qed
      then have "isl (at_add (zeros_like sol) inds wf)"
        using C other by (simp add: at_add_isl inds)
      then show ?thesis
        by (cases "at_add (zeros_like sol) inds wf") (simp_all add: unfold Inr)
    qed
    then show ?thesis
      using other by simp
  qed
qed

subsection \<open>The zero solution\<close>

lemma vsum_all_zero: "(\<And>x. x \<in> set xs \<Longrightarrow> x = vzero) \<Longrightarrow> vsum xs = vzero"
proof (induction xs)
  case Nil
  then show ?case by (simp add: vsum_def)
next
  case (Cons a xs)
  have a: "a = vzero" using Cons.prems by simp
  have "vsum xs = vzero" using Cons by simp
  then show ?case by (simp add: vsum_def a vzero_def)
qed

lemma sum_list_all_zero: "(\<And>x. x \<in> set xs \<Longrightarrow> x = (0::real)) \<Longrightarrow> sum_list xs = 0"
  by (induction xs) simp_all

lemma vscale_zero: "vscale 0 g = vzero"
  by (cases g) (simp add: vzero_def)

lemma vdot_vzero: "vdot vzero g = 0"
  by (cases g) (simp add: vzero_def)

lemma np_take_replicate: "0 < n \<Longrightarrow> np_take (replicate n z) i = z"
  by (simp add: np_take_def)

lemma concat_replicate_replicate:
  "concat (replicate n (replicate k x)) = replicate (n * k) x"
  by (induction n) (simp_all add: replicate_add)

lemma map2_const: "map2 (\<lambda>x y. c) xs ys = replicate (min (length xs) (length ys)) c"
  by (induction xs arbitrary: ys) (auto simp: zip_Cons1 split: list.splits)

lemma u_grads_of_zeros:
  assumes "mesh_ok (mesh_of fe)" and "up_c \<in> set (u_grads_of fe (zeros (num_total_nodes fe) k))"
    and "up_q \<in> set up_c"
  shows "up_q = replicate k vzero"
proof -
  let ?sol = "zeros (num_total_nodes fe) k"
  obtain sol_c sg_c where z: "(sol_c, sg_c) \<in> set (zip
        (map (map (np_take (rows ?sol))) (cells (mesh_of fe))) (shape_grads fe))"
    and up_c: "up_c = map (\<lambda>sg_q. map (\<lambda>i.
        vsum (map2 (\<lambda>row g. vscale (row ! i) g) sol_c sg_q)) [0..<ncols ?sol]) sg_c"
    using assms(2) by (auto simp: u_grads_of_def Let_def)
  from z obtain cell where cell: "cell \<in> set (cells (mesh_of fe))"
    and sol_c: "sol_c = map (np_take (rows ?sol)) cell"
    by (auto dest!: set_zip_leftD)
  have rows: "row = replicate k 0" if "row \<in> set sol_c" for row
  proof -
    from that obtain n where "n \<in> set cell" and row: "row = np_take (rows ?sol) n"
      by (auto simp: sol_c)
    then have "0 < num_total_nodes fe"
      using assms(1) cell by (auto simp: mesh_ok_def list_all_iff num_total_nodes_def)
    then show ?thesis
      by (simp add: row zeros_def np_take_replicate)
  qed
  obtain sg_q where up_q: "up_q = map (\<lambda>i.
      vsum (map2 (\<lambda>row g. vscale (row ! i) g) sol_c sg_q)) [0..<k]"
    using assms(3) by (auto simp: up_c)
  have "vsum (map2 (\<lambda>row g. vscale (row ! i) g) sol_c sg_q) = vzero" if "i < k" for i
  proof (rule vsum_all_zero)
    fix x assume "x \<in> set (map2 (\<lambda>row g. vscale (row ! i) g) sol_c sg_q)"
    then obtain row g where r: "row \<in> set sol_c" and x: "x = vscale (row ! i) g"
      by (auto dest!: set_zip_leftD)
    show "x = vzero"
      using that by (simp add: x rows [OF r] vscale_zero)
  qed
  then have "up_q = map (\<lambda>i. vzero) [0..<k]"
    unfolding up_q by (intro map_cong refl) simp
  then show ?thesis by (simp add: map_replicate_const)
qed

lemma weak_sum_zero:
  assumes "\<And>up_c up_q. up_c \<in> set us \<Longrightarrow> up_q \<in> set up_c \<Longrightarrow> up_q = replicate k vzero"
  shows "weak_sum us vgs k
     = replicate (min (length us) (length vgs)) (replicate 8 (replicate k 0))"
proof -
  have entry: "sum_list (map2 (\<lambda>up_q vg_q. vdot (up_q ! i) (vg_q ! n)) up_c vg_c) = 0"
    if "up_c \<in> set us" and "i < k" for up_c vg_c n i
  proof (rule sum_list_all_zero)
    fix x assume "x \<in> set (map2 (\<lambda>up_q vg_q. vdot (up_q ! i) (vg_q ! n)) up_c vg_c)"
    then obtain up_q vg_q where q: "up_q \<in> set up_c" and x: "x = vdot (up_q ! i) (vg_q ! n)"
      by (auto dest!: set_zip_leftD)
    show "x = 0"
      using that(2) by (simp add: x assms [OF that(1) q] vdot_vzero)
  qed
  have cell: "map (\<lambda>n. map (\<lambda>i.
        sum_list (map2 (\<lambda>up_q vg_q. vdot (up_q ! i) (vg_q ! n)) up_c vg_c)) [0..<k]) [0..<8]
      = replicate 8 (replicate k 0)" if "up_c \<in> set us" for up_c vg_c
  proof -
    have "map (\<lambda>i. sum_list (map2 (\<lambda>up_q vg_q. vdot (up_q ! i) (vg_q ! n)) up_c vg_c)) [0..<k]
        = map (\<lambda>i. 0) [0..<k]" for n
      by (intro map_cong refl) (simp add: entry [OF that])
    then show ?thesis by (simp add: map_replicate_const)
  qed
  have "weak_sum us vgs k = map2 (\<lambda>up_c vg_c. replicate 8 (replicate k 0)) us vgs"
    unfolding weak_sum_def
    by (intro map_cong refl) (auto dest!: set_zip_leftD simp: cell)
  then show ?thesis by (simp add: map2_const)
qed

lemma reshape2_zeros: "1 \<le> k \<Longrightarrow> reshape2 (replicate (n * k) 0) k = Inr (zeros n k)"
proof -
  assume k: "1 \<le> k"
  have "take k (drop (i * k) (replicate (n * k) (0::real))) = replicate k 0" if "i < n" for i
  proof -
    have "k \<le> (n - i) * k" using that k by simp
    then have "k \<le> n * k - i * k" by (simp add: diff_mult_distrib)
    then show ?thesis by (simp add: min_absorb1)
  qed
  then have "map (\<lambda>i. take k (drop (i * k) (replicate (n * k) (0::real)))) [0..<n]
      = map (\<lambda>i. replicate k 0) [0..<n]"
    by (intro map_cong refl) simp
  then show ?thesis
    using k by (simp add: reshape2_def zeros_def map_replicate_const)
qed

lemma broadcast_to_zeros: "broadcast_to (zeros n k) n k = Inr (zeros n k)"
proof -
  have inner: "map (\<lambda>j. replicate n (replicate k (0::real)) ! (if n = Suc 0 then 0 else i)
        ! (if k = Suc 0 then 0 else j)) [0..<k] = replicate k 0" if "i < n" for i
    using that by (intro nth_equalityI) auto
  have "map (\<lambda>i. map (\<lambda>j. replicate n (replicate k (0::real)) ! (if n = Suc 0 then 0 else i)
        ! (if k = Suc 0 then 0 else j)) [0..<k]) [0..<n] = replicate n (replicate k 0)"
    by (intro nth_equalityI) (simp_all add: inner)
  then show ?thesis
    by (simp add: broadcast_to_def zeros_def nrows_def)
qed

lemma replicate_update_same: "(replicate n x)[j := x] = replicate n x"
proof (cases "j < n")
  case True
  then show ?thesis by (simp add: list_update_same_conv)
next
  case False
  then show ?thesis by (simp add: list_update_beyond)
qed

lemma scatter_fold_zeros:
  "(\<forall>u\<in>set us. u = replicate k 0) \<Longrightarrow>
     foldl (\<lambda>rs (j, u). if j < length rs then rs[j := map2 (+) (rs ! j) u] else rs)
       (replicate n (replicate k (0::real))) (zip inds us) = replicate n (replicate k 0)"
proof (induction inds arbitrary: us)
  case Nil
  then show ?case by simp
next
  case (Cons j inds)
  show ?case
  proof (cases us)
    case Nil
    then show ?thesis by simp
  next
    case (Cons u us')
    have u: "u = replicate k 0" and us': "\<forall>u\<in>set us'. u = replicate k 0"
      using Cons.prems Cons by simp_all
    show ?thesis
      using Cons.IH [OF us']
      by (simp add: Cons u zip_replicate map_replicate_const replicate_update_same)
  qed
qed

lemma scatter_add_zeros: "scatter_add (zeros n k) inds (zeros r k) = zeros n k"
  using scatter_fold_zeros [of "replicate r (replicate k 0)" k n inds]
  by (simp add: scatter_add_def zeros_def)

lemma np_sub_zeros: "np_sub (zeros n k) (zeros n k) = Inr (zeros n k)"
proof -
  have "map (\<lambda>i. map (\<lambda>j.
        rows (zeros n k) ! (if nrows (zeros n k) = 1 then 0 else i)
          ! (if ncols (zeros n k) = 1 then 0 else j)
      - rows (zeros n k) ! (if nrows (zeros n k) = 1 then 0 else i)
          ! (if ncols (zeros n k) = 1 then 0 else j)) [0..<k]) [0..<n]
      = map (\<lambda>i. map (\<lambda>j. 0) [0..<k]) [0..<n]"
    by simp
  then show ?thesis
    by (simp add: np_sub_def broadcast_dim_def) (simp add: zeros_def map_replicate_const)
qed

lemma at_add_zeros:
  "at_add (zeros n k) inds (zeros (length inds) k) = Inr (zeros n k)"
  by (simp add: at_add_def broadcast_to_zeros scatter_add_zeros)

lemma mesh_ok_points:
  assumes "mesh_ok m" and "cells m \<noteq> []"
  shows "points m \<noteq> []"
proof -
  obtain cell cs where cs: "cells m = cell # cs"
    using assms(2) by (cases "cells m") simp_all
  have "length cell = 8" and "list_all (\<lambda>i. i < length (points m)) cell"
    using assms(1) by (simp_all add: mesh_ok_def cs)
  then show ?thesis
    by (cases cell) auto
qed

lemma residual_zero:
  assumes ok: "laplace_ok fe" and v1: "1 \<le> vec fe"
    and bf: "body_force fe = zeros (num_total_nodes fe) (vec fe)"
    and nm: "neumann fe = zeros (num_total_nodes fe) (vec fe)"
  shows "compute_residual Laplace_compute_physics fe (zeros (num_total_nodes fe) (vec fe))
     = Inr (zeros (num_total_nodes fe) (vec fe))"
proof -
  let ?sol = "zeros (num_total_nodes fe) (vec fe)"
  define C where "C = length (cells (mesh_of fe))"
  have m: "mesh_ok (mesh_of fe)" and lens: "length (shape_grads fe) = C" "length (v_grads_JxW fe) = C"
    using ok by (simp_all add: laplace_ok_def C_def)
  have w: "weak_sum (u_grads_of fe ?sol) (v_grads_JxW fe) (vec fe)
      = replicate C (replicate 8 (replicate (vec fe) 0))"
    using weak_sum_zero [of "u_grads_of fe ?sol" "vec fe" "v_grads_JxW fe"]
      u_grads_of_zeros [OF m]
    by (simp add: length_u_grads_of lens C_def [symmetric])
  have flat: "concat (concat (weak_sum (u_grads_of fe ?sol) (v_grads_JxW fe) (vec fe)))
      = replicate (C * 8 * vec fe) 0"
    by (simp add: w concat_replicate_replicate)
  have inds: "length (concat (cells (mesh_of fe))) = C * 8"
    unfolding C_def by (rule mesh_ok_length_inds [OF m])
  have add: "at_add ?sol (concat (cells (mesh_of fe))) (zeros (C * 8) (vec fe)) = Inr ?sol"
    using at_add_zeros [of "num_total_nodes fe" "vec fe" "concat (cells (mesh_of fe))"]
    by (simp add: inds)
  have guard: "\<not> (nrows ?sol = 0 \<and> cells (mesh_of fe) \<noteq> [])"
    using mesh_ok_points [OF m] by (auto simp: num_total_nodes_def)
  show ?thesis
    unfolding compute_residual_def Laplace_compute_physics_def Let_def
    using guard
    by (simp add: flat reshape2_zeros [OF v1] zeros_like_def add bf nm np_sub_zeros)
qed

subsection \<open>The assembled problem\<close>

lemma length_jacobian_dx_deta: "length (jacobian_dx_deta m) = length (cells m)"
  by (simp add: jacobian_dx_deta_def Let_def)

lemma Laplace_init_fields:
  assumes "Laplace_init m v dirichlet_bc_info = Inr fe"
  shows "mesh_of fe = m" and "vec fe = v"
    and "body_force fe = zeros (length (points m)) v"
    and "neumann fe = zeros (length (points m)) v"
    and "length (shape_grads fe) = length (cells m)"
    and "length (JxW fe) = length (cells m)"
    and "v_grads_JxW fe = map2 (\<lambda>sg_c jxw_c. map2 (\<lambda>sg_q jxw. map (vscale jxw) sg_q) sg_c jxw_c)
          (shape_grads fe) (JxW fe)"
  using assms
  by (auto simp: Laplace_init_def FEM_init_def get_shape_vals_ok get_shape_grads_eq
      compute_body_force_def compute_Neumann_integral_def num_total_nodes_def fem.defs
      length_jacobian_dx_deta split: sum.splits)

lemma Laplace_init_ok:
  assumes "Laplace_init m v dirichlet_bc_info = Inr fe" and "mesh_ok m"
  shows "laplace_ok fe"
  using assms(2) Laplace_init_fields [OF assms(1)]
  by (simp add: laplace_ok_def num_total_nodes_def)

lemma Laplace_init_isl:
  "isl (Laplace_init m v (location_fns, vecs, value_fns)) \<longleftrightarrow>
     \<not> (length location_fns = length value_fns \<and> length value_fns = length vecs)"
  by (simp add: Laplace_init_def FEM_init_def get_shape_vals_ok get_shape_grads_eq
      Dirichlet_boundary_conditions_def Let_def split: sum.splits)

lemma Laplace_init_unit_cube: "Laplace_init unit_cube_mesh 1 ([], [], []) = Inr unit_cube_problem"
proof -
  have "\<not> isl (Laplace_init unit_cube_mesh 1 ([], [], []))"
    by (simp add: Laplace_init_isl)
  then show ?thesis
    unfolding unit_cube_problem_def by simp
qed

lemma unit_cube_problem_fields:
  "laplace_ok unit_cube_problem" "vec unit_cube_problem = 1"
  "num_total_nodes unit_cube_problem = 8" "mesh_of unit_cube_problem = unit_cube_mesh"
  using Laplace_init_ok [OF Laplace_init_unit_cube mesh_ok_unit_cube]
    Laplace_init_fields [OF Laplace_init_unit_cube]
  by (simp_all add: num_total_nodes_def unit_cube_mesh_def)

lemma nondegenerate_unit_cube: "nondegenerate unit_cube_mesh"
  by (simp add: nondegenerate_def jacobian_dx_deta_unit_cube list_all_iff)

text \<open>
  Claim C2. On every well-formed mesh whose Jacobians are invertible, for a problem set up
  by \<^verbatim>\<open>Laplace.__init__\<close> with \<open>vec \<ge> 1\<close> components, no \<^verbatim>\<open>source_info\<close> and no
  \<^verbatim>\<open>neumann_bc_info\<close>, and with the identity \<^verbatim>\<open>Laplace.compute_physics\<close>,
  \<^verbatim>\<open>compute_residual\<close> of the all-zero solution field of shape \<open>(num_total_nodes, vec)\<close>
  returns, without error, the all-zero array of the same shape. The hypothesis on the
  Jacobians is not used by the proof: it marks the meshes on which the floating-point shape
  gradients are finite, where the real numbers of this development are the numbers of the
  code (a zero determinant gives infinite or NaN gradients, and \<open>0 * NaN\<close> is not \<open>0\<close>).
\<close>

theorem zero_solution_zero_residual:
  assumes "mesh_ok m" and "nondegenerate m" and "1 \<le> v"
    and "Laplace_init m v dirichlet_bc_info = Inr fe"
  shows "compute_residual Laplace_compute_physics fe (zeros (length (points m)) v)
     = Inr (zeros (length (points m)) v)"
proof -
  note f = Laplace_init_fields [OF assms(4)]
  have n: "num_total_nodes fe = length (points m)"
    by (simp add: num_total_nodes_def f(1))
  show ?thesis
    using residual_zero [OF Laplace_init_ok [OF assms(4) assms(1)]] assms(3)
    by (simp add: n f(2) f(3) f(4))
qed

theorem zero_solution_zero_residual_witness:
  "mesh_ok unit_cube_mesh \<and> nondegenerate unit_cube_mesh
   \<and> Laplace_init unit_cube_mesh 1 ([], [], []) = Inr unit_cube_problem
   \<and> compute_residual Laplace_compute_physics unit_cube_problem (zeros 8 1) = Inr (zeros 8 1)"
proof -
  have l: "length (points unit_cube_mesh) = 8"
    by (simp add: unit_cube_mesh_def)
  have "compute_residual Laplace_compute_physics unit_cube_problem (zeros 8 1) = Inr (zeros 8 1)"
    using zero_solution_zero_residual [OF mesh_ok_unit_cube nondegenerate_unit_cube _
        Laplace_init_unit_cube]
    by (simp add: l)
  then show ?thesis
    using mesh_ok_unit_cube nondegenerate_unit_cube Laplace_init_unit_cube
    by simp
qed

text \<open>
  Claim C9, as amended. \<^verbatim>\<open>compute_residual\<close> does not validate the shape of \<^verbatim>\<open>sol\<close>; an
  error can only come from an array operation inside the computation. For a problem with
  \<open>vec \<ge> 1\<close> on a mesh with at least one cell, whose precomputed arrays have the shapes
  that \<^verbatim>\<open>__init__\<close> gives them, a two-dimensional \<^verbatim>\<open>sol\<close> is rejected if and only if
  it has no row (\<^verbatim>\<open>np.take\<close> from an empty axis), or its component count differs from
  \<open>vec\<close>, except for a solution field without components when \<open>vec = 1\<close>, or its row
  count is neither \<open>num_total_nodes\<close> nor \<open>1\<close> and \<open>num_total_nodes\<close> is not \<open>1\<close>. So a
  one-row solution field, any row count on a one-node mesh, and a solution field without
  components when \<open>vec = 1\<close> are accepted and broadcast.
\<close>

theorem residual_shape_mismatch:
  assumes "laplace_ok fe" and "1 \<le> vec fe" and "cells (mesh_of fe) \<noteq> []"
  shows "isl (compute_residual Laplace_compute_physics fe sol) \<longleftrightarrow>
      nrows sol = 0
      \<or> (ncols sol \<noteq> vec fe \<and> \<not> (ncols sol = 0 \<and> vec fe = 1))
      \<or> (nrows sol \<noteq> num_total_nodes fe \<and> nrows sol \<noteq> 1 \<and> num_total_nodes fe \<noteq> 1)"
  by (rule residual_shape_errors [OF assms])

text \<open>
  Claim C9 as stated fails: on the unit cube, with eight nodes and one component, a solution
  field of shape \<open>(1, 1)\<close> has the wrong node count, and \<^verbatim>\<open>compute_residual\<close> returns an
  array instead of raising an error.
\<close>

theorem residual_accepts_wrong_node_count:
  "nrows \<lparr>ncols = 1, rows = [[0]]\<rparr> \<noteq> num_total_nodes unit_cube_problem
   \<and> \<not> isl (compute_residual Laplace_compute_physics unit_cube_problem \<lparr>ncols = 1, rows = [[0]]\<rparr>)"
  using residual_shape_errors [OF unit_cube_problem_fields(1), of "\<lparr>ncols = 1, rows = [[0]]\<rparr>"]
  by (simp add: unit_cube_problem_fields nrows_def unit_cube_mesh_def)

theorem residual_shape_mismatch_witness:
  "laplace_ok unit_cube_problem \<and> 1 \<le> vec unit_cube_problem
   \<and> cells (mesh_of unit_cube_problem) \<noteq> []
   \<and> isl (compute_residual Laplace_compute_physics unit_cube_problem (zeros 9 1))
   \<and> isl (compute_residual Laplace_compute_physics unit_cube_problem (zeros 8 2))
   \<and> isl (compute_residual Laplace_compute_physics unit_cube_problem (zeros 0 1))
   \<and> \<not> isl (compute_residual Laplace_compute_physics unit_cube_problem (zeros 8 1))
   \<and> \<not> isl (compute_residual Laplace_compute_physics unit_cube_problem (zeros 8 0))"
proof -
  have ok: "laplace_ok unit_cube_problem" and v: "1 \<le> vec unit_cube_problem"
    and c: "cells (mesh_of unit_cube_problem) \<noteq> []"
    by (simp_all add: unit_cube_problem_fields unit_cube_mesh_def)
  note iff = residual_shape_mismatch [OF ok v c]
  have "isl (compute_residual Laplace_compute_physics unit_cube_problem (zeros 9 1))"
    using iff [of "zeros 9 1"] by (simp add: unit_cube_problem_fields)
  moreover have "isl (compute_residual Laplace_compute_physics unit_cube_problem (zeros 8 2))"
    using iff [of "zeros 8 2"] by (simp add: unit_cube_problem_fields)
  moreover have "isl (compute_residual Laplace_compute_physics unit_cube_problem (zeros 0 1))"
    using iff [of "zeros 0 1"] by (simp add: unit_cube_problem_fields)
  moreover have "\<not> isl (compute_residual Laplace_compute_physics unit_cube_problem (zeros 8 1))"
    using iff [of "zeros 8 1"] by (simp add: unit_cube_problem_fields)
  moreover have "\<not> isl (compute_residual Laplace_compute_physics unit_cube_problem (zeros 8 0))"
    using iff [of "zeros 8 0"] by (simp add: unit_cube_problem_fields)
  ultimately show ?thesis
    using ok v c by simp
qed

section \<open>Plasticity: the stored state\<close>

subsection \<open>Reshaping\<close>









subsection \<open>The stored stresses and strains\<close>



subsection \<open>A stretched unit cube\<close>

















section \<open>Quadrature weights of the unit cube\<close>

text \<open>
  On the unit cube the eight values of \<^verbatim>\<open>JxW\<close> are \<open>1 / 8\<close> each (the reference cube
  has side 2 and the quadrature weights are 1), and they sum to \<open>1\<close>, the volume of the
  cube.
\<close>

lemma JxW_unit_cube:
  "snd (projr (get_shape_grads unit_cube_mesh)) = [replicate 8 (1 / 8)]"
  "map sum_list (snd (projr (get_shape_grads unit_cube_mesh))) = [1]"
  by (simp_all add: get_shape_grads_eq jacobian_dx_deta_unit_cube sum_list_replicate)

end
